theory Spec2Isabelle
  imports Main "HOL-Library.Word"
begin

section \<open>Run-time failures\<close>

text \<open>
  A Go run-time panic is a value: every function of the model that can panic returns
  \<open>panic + 'a\<close>, with \<open>Inl\<close> for the panic.
\<close>

datatype panic = IndexOutOfRange | SliceBoundsOutOfRange | NilPointerDereference

section \<open>Stack frames and \<open>newStacktrace\<close>\<close>

text \<open>
  \<open>sentry.Frame\<close>, restricted to the fields that identify a call site. The only field
  \<open>newStacktrace\<close> reads is \<open>Module\<close>.
\<close>

record Frame =
  Function :: string
  Module :: string
  Filename :: string
  Lineno :: int

text \<open>The two constants of \<open>newStacktrace\<close> (writer.go, lines 156-159).\<close>

definition module :: string where
  "module = ''github.com/archdx/zerolog-sentry''"

definition loggerModule :: string where
  "loggerModule = ''github.com/rs/zerolog''"

text \<open>The module path this repository declares in its go.mod (first line).\<close>

definition goModModule :: string where
  "goModModule = ''github.com/egordigitax/zerolog-sentry''"

text \<open>
  \<open>st.Frames[i]\<close>: Go panics when the index is outside \<open>0 \<le> i < len\<close>. Indices are
  Go \<open>int\<close>s and can be negative (\<open>len - 1\<close> of an empty slice), hence \<open>int\<close>.
\<close>

definition frameAt :: "Frame list \<Rightarrow> int \<Rightarrow> panic + Frame" where
  "frameAt fs i =
     (if 0 \<le> i \<and> i < int (length fs) then Inr (fs ! nat i) else Inl IndexOutOfRange)"

text \<open>
  \<open>st.Frames[:high]\<close>: Go panics unless \<open>0 \<le> high \<le> cap\<close>. The model checks against
  the length, which is at most the capacity, so it panics at least where Go does.
\<close>

definition sliceTo :: "Frame list \<Rightarrow> int \<Rightarrow> panic + Frame list" where
  "sliceTo fs high =
     (if 0 \<le> high \<and> high \<le> int (length fs) then Inr (take (nat high) fs)
      else Inl SliceBoundsOutOfRange)"

text \<open>
  The first loop (line 165):
  \<^verbatim>\<open>for ; threshold > 0 && st.Frames[threshold].Module == module; threshold-- {}\<close>
  The result is the value of \<open>threshold\<close> when the loop exits.
\<close>

function dropCurrent :: "Frame list \<Rightarrow> int \<Rightarrow> panic + int" where
  "dropCurrent fs threshold =
     (if threshold > 0 then
        (case frameAt fs threshold of
           Inl e \<Rightarrow> Inl e
         | Inr f \<Rightarrow>
             if Module f = module then dropCurrent fs (threshold - 1) else Inr threshold)
      else Inr threshold)"
  by pat_completeness auto
termination
  by (relation "measure (\<lambda>(fs, threshold). nat threshold)") auto

declare dropCurrent.simps [simp del]

text \<open>
  The inner loop (lines 172-177), \<open>for j := i - 1; j >= 0; j--\<close>: \<open>Some j\<close> when it
  leaves through \<open>break outer\<close> with \<open>threshold = j\<close>, \<open>None\<close> when it runs to its end.
\<close>

function innerScan :: "Frame list \<Rightarrow> int \<Rightarrow> panic + int option" where
  "innerScan fs j =
     (if j \<ge> 0 then
        (case frameAt fs j of
           Inl e \<Rightarrow> Inl e
         | Inr f \<Rightarrow>
             if Module f \<noteq> loggerModule then Inr (Some j) else innerScan fs (j - 1))
      else Inr None)"
  by pat_completeness auto
termination
  by (relation "measure (\<lambda>(fs, j). nat (j + 1))") auto

declare innerScan.simps [simp del]

text \<open>
  The labelled loop (lines 168-181), \<open>for i := threshold; i > 0; i--\<close>. At the first
  frame of the logger's module the inner loop runs and the outer loop ends, either by
  \<open>break outer\<close> (new threshold) or by the plain \<open>break\<close> (threshold unchanged).
\<close>

function outerScan :: "Frame list \<Rightarrow> int \<Rightarrow> int \<Rightarrow> panic + int" where
  "outerScan fs threshold i =
     (if i > 0 then
        (case frameAt fs i of
           Inl e \<Rightarrow> Inl e
         | Inr f \<Rightarrow>
             if Module f = loggerModule then
               (case innerScan fs (i - 1) of
                  Inl e \<Rightarrow> Inl e
                | Inr (Some j) \<Rightarrow> Inr j
                | Inr None \<Rightarrow> Inr threshold)
             else outerScan fs threshold (i - 1))
      else Inr threshold)"
  by pat_completeness auto
termination
  by (relation "measure (\<lambda>(fs, threshold, i). nat i)") auto

declare outerScan.simps [simp del]

text \<open>
  \<open>newStacktrace\<close> (lines 155-186). Its argument is the frame slice of the stack trace
  that \<open>sentry.NewStacktrace()\<close> captured: the client library orders it from the
  outermost call (index 0) to the innermost, most recent call (last index). The
  library returns a \<open>nil\<close> trace only when the run time reports no caller at all, which
  a call from inside \<open>newStacktrace\<close> excludes; the slice itself may be empty.
\<close>

definition newStacktrace :: "Frame list \<Rightarrow> panic + Frame list" where
  "newStacktrace frames =
     (case dropCurrent frames (int (length frames) - 1) of
        Inl e \<Rightarrow> Inl e
      | Inr threshold \<Rightarrow>
          (case outerScan frames threshold threshold of
             Inl e \<Rightarrow> Inl e
           | Inr threshold' \<Rightarrow> sliceTo frames (threshold' + 1)))"

section \<open>Levels\<close>

text \<open>
  \<open>zerolog.Level\<close> is an \<open>int8\<close>. The named levels are the constants the logging library
  declares: debug to disabled are 0 to 7, trace is -1. Any other \<open>int8\<close> value is a level
  too (\<open>zerolog.Level(42)\<close>).
\<close>

type_synonym zerolog_Level = "8 word"

definition DebugLevel :: zerolog_Level where "DebugLevel = 0"
definition InfoLevel :: zerolog_Level where "InfoLevel = 1"
definition WarnLevel :: zerolog_Level where "WarnLevel = 2"
definition ErrorLevel :: zerolog_Level where "ErrorLevel = 3"
definition FatalLevel :: zerolog_Level where "FatalLevel = 4"
definition PanicLevel :: zerolog_Level where "PanicLevel = 5"
definition NoLevel :: zerolog_Level where "NoLevel = 6"
definition Disabled :: zerolog_Level where "Disabled = 7"
definition TraceLevel :: zerolog_Level where "TraceLevel = - 1"

text \<open>
  \<open>sentry.Level\<close> is a string type; the client library declares five severities. The
  zero value of the type is the empty string.
\<close>

type_synonym sentry_Level = string

definition LevelDebug :: sentry_Level where "LevelDebug = ''debug''"
definition LevelInfo :: sentry_Level where "LevelInfo = ''info''"
definition LevelWarning :: sentry_Level where "LevelWarning = ''warning''"
definition LevelError :: sentry_Level where "LevelError = ''error''"
definition LevelFatal :: sentry_Level where "LevelFatal = ''fatal''"

text \<open>\<open>levelsMapping\<close> (lines 14-21): a Go map with six entries.\<close>

definition levelsMapping :: "zerolog_Level \<rightharpoonup> sentry_Level" where
  "levelsMapping =
     [DebugLevel \<mapsto> LevelDebug,
      InfoLevel \<mapsto> LevelInfo,
      WarnLevel \<mapsto> LevelWarning,
      ErrorLevel \<mapsto> LevelError,
      FatalLevel \<mapsto> LevelFatal,
      PanicLevel \<mapsto> LevelFatal]"

text \<open>
  \<open>levelsMapping[lvl]\<close>: indexing a Go map at a key it does not hold yields the zero value
  of the value type, here the empty \<open>sentry.Level\<close>.
\<close>

definition levelsMappingAt :: "zerolog_Level \<Rightarrow> sentry_Level" where
  "levelsMappingAt lvl = (case levelsMapping lvl of None \<Rightarrow> [] | Some l \<Rightarrow> l)"

section \<open>Events\<close>

text \<open>
  \<open>sentry.Exception\<close> and \<open>sentry.Event\<close>, with the fields this package writes.
  \<open>User_ID\<close> is \<open>event.User.ID\<close>; \<open>Extra\<close> is a Go map.
\<close>

record sentry_Exception =
  Type :: string
  Value :: string
  Stacktrace :: "Frame list"

record Event =
  Timestamp :: int
  Logger :: string
  Extra :: "string \<rightharpoonup> string"
  Fingerprint :: "string list"
  Message :: string
  Exception :: "sentry_Exception list"
  User_ID :: string
  Level :: sentry_Level

text \<open>
  The field names of the logging library (its package variables, at their defaults).
\<close>

definition MessageFieldName :: string where "MessageFieldName = ''message''"
definition ErrorFieldName :: string where "ErrorFieldName = ''error''"
definition LevelFieldName :: string where "LevelFieldName = ''level''"
definition TimestampFieldName :: string where "TimestampFieldName = ''time''"

section \<open>The libraries the writer calls\<close>

text \<open>
  The JSON scanner, the level parser, the stack capture and the clock are not code of
  this package. The model takes what they return as a parameter:
  \<^item> \<open>GetUnsafeString data key\<close> and \<open>GetString data key\<close>: the value found at a top-level
    key, or the library's error;
  \<^item> \<open>ObjectEach data\<close>: the top-level (key, value) pairs the scanner hands to its callback,
    in document order, and the error it returns at the end (\<open>None\<close> for \<open>nil\<close>). The
    callback of \<open>parseLogEvent\<close> always returns \<open>nil\<close>, so it never stops the scan;
  \<^item> \<open>ParseLevel s\<close>: the pair (level, error) of \<open>zerolog.ParseLevel\<close>;
  \<^item> \<open>NewStacktrace\<close>: the frames \<open>sentry.NewStacktrace()\<close> captures, outermost first;
  \<^item> \<open>now\<close>: the clock;
  \<^item> \<open>afterCaptureEvent ev\<close>: the event as \<open>hub.CaptureEvent\<close> leaves it. The writer
    hands the client a pointer to its event, and the client writes through it (it fills
    fields, applies the level of its scope, runs the \<open>BeforeSend\<close> callback that
    \<open>WithBeforeSend\<close> installs); the writer reads \<open>event.Level\<close> after the call.
\<close>

datatype error = Error string

type_synonym bytes = string

record env =
  GetUnsafeString :: "bytes \<Rightarrow> string \<Rightarrow> error + string"
  ObjectEach :: "bytes \<Rightarrow> (string \<times> string) list \<times> error option"
  GetString :: "bytes \<Rightarrow> string \<Rightarrow> error + string"
  ParseLevel :: "string \<Rightarrow> zerolog_Level \<times> error option"
  NewStacktrace :: "Frame list"
  now :: int
  afterCaptureEvent :: "Event \<Rightarrow> Event"

section \<open>The hub\<close>

text \<open>
  The external client is state outside this package. The model records the calls the
  writer makes on it, in order: a hub is the list of calls made so far. A
  \<open>CaptureEvent\<close> entry holds the event as the writer hands it over.
\<close>

datatype hub_call = CaptureEvent Event | Flush int

type_synonym hub = "hub_call list"

fun captured :: "hub \<Rightarrow> Event list" where
  "captured [] = []"
| "captured (CaptureEvent ev # h) = ev # captured h"
| "captured (Flush t # h) = captured h"


section \<open>Configuration and construction\<close>

text \<open>
  \<open>config\<close> (lines 203-219). The fields left out are handed to \<open>sentry.Init\<close> unchanged
  and never read again. A duration is a number of nanoseconds.
\<close>

record config =
  config_levels :: "zerolog_Level list"
  config_flushTimeout :: int

record Writer =
  levels :: "zerolog_Level set"
  flushTimeout :: int

definition newDefaultConfig :: config where
  "newDefaultConfig =
     \<lparr>config_levels = [ErrorLevel, FatalLevel, PanicLevel],
      config_flushTimeout = 3 * 1000000000\<rparr>"

definition WithLevels :: "zerolog_Level list \<Rightarrow> config \<Rightarrow> config" where
  "WithLevels lvls cfg = cfg\<lparr>config_levels := lvls\<rparr>"

text \<open>
  \<open>New\<close> (lines 322-358). \<open>initErr\<close> is what \<open>sentry.Init\<close> returns. The loop over
  \<open>cfg.levels\<close> fills the key set of the writer's map.
\<close>

definition New :: "error option \<Rightarrow> (config \<Rightarrow> config) list \<Rightarrow> error + Writer" where
  "New initErr opts =
     (let cfg = fold (\<lambda>opt c. opt c) opts newDefaultConfig in
      case initErr of
        Some e \<Rightarrow> Inl e
      | None \<Rightarrow>
          Inr \<lparr>levels = set (config_levels cfg), flushTimeout = config_flushTimeout cfg\<rparr>)"

section \<open>The writer\<close>

text \<open>
  \<open>parseLogLevel\<close> (lines 90-97). When the level field cannot be read the result is
  \<open>zerolog.Disabled\<close> with a \<open>nil\<close> error.
\<close>

definition parseLogLevel :: "env \<Rightarrow> bytes \<Rightarrow> zerolog_Level \<times> error option" where
  "parseLogLevel e data =
     (case GetUnsafeString e data LevelFieldName of
        Inl err \<Rightarrow> (Disabled, None)
      | Inr lvlStr \<Rightarrow> ParseLevel e lvlStr)"

text \<open>
  The variables of \<open>parseLogEvent\<close> that its callback updates: \<open>event\<close>, \<open>message\<close> and
  \<open>exceptions\<close>.
\<close>

record locals =
  event :: Event
  message :: string
  exceptions :: "sentry_Exception list"

text \<open>
  The callback (lines 114-137): one \<open>switch\<close> on the key, the cases tried in order. A
  panic of \<open>newStacktrace\<close> would leave the callback at once.
\<close>

definition callback :: "env \<Rightarrow> locals \<Rightarrow> string \<Rightarrow> string \<Rightarrow> panic + locals" where
  "callback e s key val =
     (if key = MessageFieldName then
        Inr (s\<lparr>message := val,
               event := (event s)\<lparr>Fingerprint := Fingerprint (event s) @ [val]\<rparr>\<rparr>)
      else if key = ErrorFieldName then
        (case newStacktrace (NewStacktrace e) of
           Inl p \<Rightarrow> Inl p
         | Inr st \<Rightarrow>
             Inr (s\<lparr>exceptions :=
                      exceptions s @ [\<lparr>Type = [], Value = val, Stacktrace = st\<rparr>],
                    event := (event s)\<lparr>Fingerprint := Fingerprint (event s) @ [val]\<rparr>\<rparr>))
      else if key = LevelFieldName \<or> key = TimestampFieldName then
        Inr s
      else if key = ''user_id'' then
        (let ev = (if User_ID (event s) = [] then (event s)\<lparr>User_ID := val\<rparr> else event s)
         in Inr (s\<lparr>event := ev\<lparr>Extra := (Extra ev)(''user_id'' \<mapsto> val)\<rparr>\<rparr>))
      else
        Inr (s\<lparr>event := (event s)\<lparr>Extra := (Extra (event s))(key \<mapsto> val)\<rparr>\<rparr>))"

text \<open>The scanner calls the callback on each pair in turn.\<close>

fun eachEntry :: "env \<Rightarrow> locals \<Rightarrow> (string \<times> string) list \<Rightarrow> panic + locals" where
  "eachEntry e s [] = Inr s"
| "eachEntry e s ((key, val) # rest) =
     (case callback e s key val of
        Inl p \<Rightarrow> Inl p
      | Inr s' \<Rightarrow> eachEntry e s' rest)"

text \<open>
  The last loop of \<open>parseLogEvent\<close> (lines 147-150): each collected exception gets the
  message as its type and is appended to the event.
\<close>

fun appendExceptions :: "string \<Rightarrow> sentry_Exception list \<Rightarrow> Event \<Rightarrow> Event" where
  "appendExceptions msg [] ev = ev"
| "appendExceptions msg (exc # rest) ev =
     appendExceptions msg rest (ev\<lparr>Exception := Exception ev @ [exc\<lparr>Type := msg\<rparr>]\<rparr>)"

text \<open>
  \<open>parseLogEvent\<close> (lines 100-153). The result is the pair the Go function returns: the
  event pointer (\<open>None\<close> for \<open>nil\<close>) and the flag.
\<close>

definition parseLogEvent :: "env \<Rightarrow> bytes \<Rightarrow> panic + (Event option \<times> bool)" where
  "parseLogEvent e data =
     (let event0 = \<lparr>Timestamp = now e, Logger = ''zerolog'', Extra = Map.empty,
                     Fingerprint = [], Message = [], Exception = [], User_ID = [],
                     Level = []\<rparr>;
          (entries, err) = ObjectEach e data
      in case eachEntry e \<lparr>event = event0, message = [], exceptions = []\<rparr> entries of
           Inl p \<Rightarrow> Inl p
         | Inr s \<Rightarrow>
             if err \<noteq> None then Inr (None, False)
             else
               (let ev1 = (case GetString e data ''fingerprint'' of
                             Inl _ \<Rightarrow> event s
                           | Inr fingerprint \<Rightarrow>
                               if fingerprint \<noteq> [] then (event s)\<lparr>Fingerprint := [fingerprint]\<rparr>
                               else event s);
                    ev2 = ev1\<lparr>Message := message s\<rparr>
                in Inr (Some (appendExceptions (message s) (exceptions s) ev2), True)))"

text \<open>
  \<open>Write\<close> (lines 36-60). The result is the hub after the call with the pair \<open>(n, err)\<close>,
  or the panic. \<open>err\<close> is the named result that \<open>lvl, err := w.parseLogLevel(data)\<close>
  assigns; past the first test it is \<open>nil\<close>. The assignment
  \<open>event.Level = levelsMapping[lvl]\<close> comes before the test of \<open>ok\<close>: on a \<open>nil\<close> event
  it is a nil pointer dereference. The test \<open>event.Level == sentry.LevelFatal\<close> (line
  54) comes after \<open>w.hub.CaptureEvent(event)\<close> (line 52) and reads the field through the
  pointer the client was given: it sees the event as the client left it.
\<close>

definition Write :: "env \<Rightarrow> Writer \<Rightarrow> hub \<Rightarrow> bytes \<Rightarrow> panic + (hub \<times> int \<times> error option)" where
  "Write e w h data =
     (let n = int (length data) in
      case parseLogLevel e data of
        (lvl, err) \<Rightarrow>
          if err \<noteq> None then Inr (h, n, None)
          else if lvl \<notin> levels w then Inr (h, n, err)
          else
            (case parseLogEvent e data of
               Inl p \<Rightarrow> Inl p
             | Inr (evp, ok) \<Rightarrow>
                 (case evp of
                    None \<Rightarrow> Inl NilPointerDereference
                  | Some ev0 \<Rightarrow>
                      (let ev = ev0\<lparr>Level := levelsMappingAt lvl\<rparr> in
                       if ok then
                         (let h1 = h @ [CaptureEvent ev];
                              ev' = afterCaptureEvent e ev
                          in if Level ev' = LevelFatal
                             then Inr (h1 @ [Flush (flushTimeout w)], n, err)
                             else Inr (h1, n, err))
                       else Inr (h, n, err)))))"

text \<open>
  \<open>WriteLevel\<close> (lines 63-80): the same, with the level given by the caller; the test
  of line 75 comes after the call of line 73.
\<close>

definition WriteLevel ::
  "env \<Rightarrow> Writer \<Rightarrow> hub \<Rightarrow> zerolog_Level \<Rightarrow> bytes \<Rightarrow> panic + (hub \<times> int \<times> error option)"
where
  "WriteLevel e w h level p =
     (let n = int (length p) in
      if level \<notin> levels w then Inr (h, n, None)
      else
        (case parseLogEvent e p of
           Inl pn \<Rightarrow> Inl pn
         | Inr (evp, ok) \<Rightarrow>
             (case evp of
                None \<Rightarrow> Inl NilPointerDereference
              | Some ev0 \<Rightarrow>
                  (let ev = ev0\<lparr>Level := levelsMappingAt level\<rparr> in
                   if ok then
                     (let h1 = h @ [CaptureEvent ev];
                          ev' = afterCaptureEvent e ev
                      in if Level ev' = LevelFatal
                         then Inr (h1 @ [Flush (flushTimeout w)], n, None)
                         else Inr (h1, n, None))
                   else Inr (h, n, None)))))"


section \<open>Reading a record's fields\<close>

text \<open>
  What a list of top-level pairs holds, for stating properties: the values of the
  message fields, of the error fields, of both in document order, and the value of the
  last message field (empty when there is none).
\<close>

definition messageValues :: "(string \<times> string) list \<Rightarrow> string list" where
  "messageValues entries = map snd (filter (\<lambda>kv. fst kv = MessageFieldName) entries)"

definition errorValues :: "(string \<times> string) list \<Rightarrow> string list" where
  "errorValues entries = map snd (filter (\<lambda>kv. fst kv = ErrorFieldName) entries)"

definition messageAndErrorValues :: "(string \<times> string) list \<Rightarrow> string list" where
  "messageAndErrorValues entries =
     map snd (filter (\<lambda>kv. fst kv = MessageFieldName \<or> fst kv = ErrorFieldName) entries)"

definition finalMessage :: "(string \<times> string) list \<Rightarrow> string" where
  "finalMessage entries =
     (case rev (messageValues entries) of [] \<Rightarrow> [] | m # _ \<Rightarrow> m)"

section \<open>A sample environment\<close>

text \<open>
  For evaluating the writer on a concrete record: an environment that answers as the
  libraries answer on that record. \<open>lvl\<close> is the scanner's answer for the level field,
  \<open>each\<close> the pairs it visits with its final error, \<open>fp\<close> its answer for the
  fingerprint field. \<open>parseLevelNames\<close> is the level parser on the lower-case level
  names; every other string is rejected here (the library also accepts other spellings
  and numbers, which the examples do not use). \<open>defaultCapture\<close> is what a client with
  no scope level and no \<open>BeforeSend\<close> callback does to the level of an event: it fills
  an empty level with \<open>info\<close> and leaves any other level.
\<close>

definition parseLevelNames :: "string \<Rightarrow> zerolog_Level \<times> error option" where
  "parseLevelNames s =
     (if s = ''trace'' then (TraceLevel, None)
      else if s = ''debug'' then (DebugLevel, None)
      else if s = ''info'' then (InfoLevel, None)
      else if s = ''warn'' then (WarnLevel, None)
      else if s = ''error'' then (ErrorLevel, None)
      else if s = ''fatal'' then (FatalLevel, None)
      else if s = ''panic'' then (PanicLevel, None)
      else if s = ''disabled'' then (Disabled, None)
      else if s = [] then (NoLevel, None)
      else (NoLevel, Some (Error ''Unknown Level String'')))"

definition defaultCapture :: "Event \<Rightarrow> Event" where
  "defaultCapture ev = (if Level ev = [] then ev\<lparr>Level := LevelInfo\<rparr> else ev)"

definition answers ::
  "error + string \<Rightarrow> (string \<times> string) list \<times> error option \<Rightarrow> error + string \<Rightarrow>
   Frame list \<Rightarrow> env"
where
  "answers lvl each fp frames =
     \<lparr>GetUnsafeString = (\<lambda>data key. lvl),
      ObjectEach = (\<lambda>data. each),
      GetString = (\<lambda>data key. fp),
      ParseLevel = parseLevelNames,
      NewStacktrace = frames,
      now = 0,
      afterCaptureEvent = defaultCapture\<rparr>"

text \<open>The writer \<open>New\<close> builds with no option: levels error, fatal and panic.\<close>

definition defaultWriter :: Writer where
  "defaultWriter =
     \<lparr>levels = {ErrorLevel, FatalLevel, PanicLevel}, flushTimeout = 3 * 1000000000\<rparr>"

text \<open>
  A frame of a given module, and a captured stack as a logging call leaves it: the
  application, the logger, the writer, the scanner calling back into the writer.
\<close>

definition frameOf :: "string \<Rightarrow> string \<Rightarrow> Frame" where
  "frameOf m f = \<lparr>Function = f, Module = m, Filename = [], Lineno = 0\<rparr>"

definition sampleStack :: "Frame list" where
  "sampleStack =
     [frameOf ''main'' ''main'',
      frameOf ''example.com/app'' ''handle'',
      frameOf loggerModule ''(*Event).Msg'',
      frameOf loggerModule ''(*Event).msg'',
      frameOf loggerModule ''(*Event).write'',
      frameOf loggerModule ''LevelWriterAdapter.WriteLevel'',
      frameOf goModModule ''(*Writer).Write'',
      frameOf goModModule ''(*Writer).parseLogEvent'',
      frameOf ''github.com/buger/jsonparser'' ''ObjectEach'',
      frameOf goModModule ''(*Writer).parseLogEvent.func1'',
      frameOf goModModule ''newStacktrace'']"

text \<open>The two errors of the scanner that the examples meet.\<close>

definition KeyPathNotFoundError :: error where
  "KeyPathNotFoundError = Error ''KeyPathNotFoundError''"

definition MalformedArrayError :: error where
  "MalformedArrayError = Error ''MalformedArrayError''"

text \<open>
  The text of a record: \<open>quoted s\<close> is \<open>s\<close> between double quotes, \<open>field k v\<close> is
  a string field, \<open>object fs\<close> is the object with the fields \<open>fs\<close>.
\<close>

definition quoted :: "string \<Rightarrow> string" where
  "quoted s = CHR 0x22 # s @ [CHR 0x22]"

definition field :: "string \<Rightarrow> string \<Rightarrow> string" where
  "field k v = quoted k @ '':'' @ quoted v"

fun joinFields :: "string list \<Rightarrow> string" where
  "joinFields [] = []"
| "joinFields [f] = f"
| "joinFields (f # g # fs) = f @ '','' @ joinFields (g # fs)"

definition object :: "string list \<Rightarrow> bytes" where
  "object fs = ''{'' @ joinFields fs @ ''}''"

text \<open>
  An error record with two error fields before its message, as the logger orders a
  record (level, error, other fields, message), and the scanner's answers on it.
\<close>

definition recordErrors :: bytes where
  "recordErrors =
     object [field ''level'' ''error'', field ''error'' ''E1'', field ''error'' ''E2'',
             field ''message'' ''M'']"

definition libErrors :: env where
  "libErrors =
     answers (Inr ''error'')
       ([(''level'', ''error''), (''error'', ''E1''), (''error'', ''E2''),
         (''message'', ''M'')], None)
       (Inl KeyPathNotFoundError) sampleStack"

text \<open>The same fields with the message before the errors.\<close>

definition recordMessageFirst :: bytes where
  "recordMessageFirst =
     object [field ''level'' ''error'', field ''message'' ''M'', field ''error'' ''E1'',
             field ''error'' ''E2'']"

definition libMessageFirst :: env where
  "libMessageFirst =
     answers (Inr ''error'')
       ([(''level'', ''error''), (''message'', ''M''), (''error'', ''E1''),
         (''error'', ''E2'')], None)
       (Inl KeyPathNotFoundError) sampleStack"

text \<open>An error record with an explicit fingerprint.\<close>

definition recordFingerprint :: bytes where
  "recordFingerprint =
     object [field ''level'' ''error'', field ''error'' ''E1'', field ''message'' ''M'',
             field ''fingerprint'' ''F'']"

definition libFingerprint :: env where
  "libFingerprint =
     answers (Inr ''error'')
       ([(''level'', ''error''), (''error'', ''E1''), (''message'', ''M''),
         (''fingerprint'', ''F'')], None)
       (Inr ''F'') sampleStack"

text \<open>
  A truncated record: the text of an error record without its closing brace. The level
  field is read; the scan visits both fields and then fails for want of a next token.
\<close>

definition recordTruncated :: bytes where
  "recordTruncated = butlast (object [field ''level'' ''error'', field ''message'' ''M''])"

definition libTruncated :: env where
  "libTruncated =
     answers (Inr ''error'')
       ([(''level'', ''error''), (''message'', ''M'')], Some MalformedArrayError)
       (Inl KeyPathNotFoundError) sampleStack"

text \<open>A record without a level field.\<close>

definition recordNoLevel :: bytes where
  "recordNoLevel = object [field ''message'' ''M'']"

definition libNoLevel :: env where
  "libNoLevel =
     answers (Inl KeyPathNotFoundError) ([(''message'', ''M'')], None)
       (Inl KeyPathNotFoundError) sampleStack"





definition recordTrace :: bytes where
  "recordTrace = object [field ''level'' ''trace'', field ''message'' ''M'']"

definition libTrace :: env where
  "libTrace =
     answers (Inr ''trace'') ([(''level'', ''trace''), (''message'', ''M'')], None)
       (Inl KeyPathNotFoundError) sampleStack"

section \<open>Properties of \<open>newStacktrace\<close>\<close>

lemma loggerModule_neq_module: "loggerModule \<noteq> module"
  by (simp add: loggerModule_def module_def)


lemma goModModule_neq_loggerModule: "goModModule \<noteq> loggerModule"
  by (simp add: goModModule_def loggerModule_def)

text \<open>
  The first loop reads only indices inside the slice. It stops at a threshold between
  \<open>min threshold 0\<close> and its start, and every index it stepped over holds a frame of
  the hard-coded module.
\<close>

lemma dropCurrent_result:
  "threshold < int (length fs) \<Longrightarrow>
   \<exists>t. dropCurrent fs threshold = Inr t \<and> t \<le> threshold \<and> min threshold 0 \<le> t \<and>
       (\<forall>i. t < i \<and> i \<le> threshold \<longrightarrow> Module (fs ! nat i) = module)"
proof (induction fs threshold rule: dropCurrent.induct)
  case (1 fs threshold)
  show ?case
  proof (cases "threshold > 0 \<and> Module (fs ! nat threshold) = module")
    case True
    with "1.prems" have fa: "frameAt fs threshold = Inr (fs ! nat threshold)"
      by (simp add: frameAt_def)
    from True "1.prems" fa "1.IH"[of "fs ! nat threshold"]
    obtain t where t: "dropCurrent fs (threshold - 1) = Inr t" "t \<le> threshold - 1"
      "min (threshold - 1) 0 \<le> t"
      "\<forall>i. t < i \<and> i \<le> threshold - 1 \<longrightarrow> Module (fs ! nat i) = module"
      by auto
    have eq: "dropCurrent fs threshold = Inr t"
      using True fa t(1) by (subst dropCurrent.simps) simp
    have "\<forall>i. t < i \<and> i \<le> threshold \<longrightarrow> Module (fs ! nat i) = module"
    proof (intro allI impI)
      fix i assume i: "t < i \<and> i \<le> threshold"
      then consider "i \<le> threshold - 1" | "i = threshold" by linarith
      then show "Module (fs ! nat i) = module"
        using t(4) True i by cases auto
    qed
    with eq t True show ?thesis by auto
  next
    case False
    have "dropCurrent fs threshold = Inr threshold"
      using False "1.prems" by (subst dropCurrent.simps) (auto simp: frameAt_def)
    then show ?thesis by auto
  qed
qed

text \<open>The inner loop reads only indices inside the slice and ends.\<close>

lemma innerScan_result:
  "j < int (length fs) \<Longrightarrow>
   \<exists>r. innerScan fs j = Inr r \<and> (case r of None \<Rightarrow> True | Some k \<Rightarrow> 0 \<le> k \<and> k \<le> j)"
proof (induction fs j rule: innerScan.induct)
  case (1 fs j)
  show ?case
  proof (cases "j \<ge> 0 \<and> Module (fs ! nat j) = loggerModule")
    case True
    with "1.prems" have fa: "frameAt fs j = Inr (fs ! nat j)"
      by (simp add: frameAt_def)
    from True "1.prems" fa "1.IH"[of "fs ! nat j"]
    obtain r where r: "innerScan fs (j - 1) = Inr r"
      "case r of None \<Rightarrow> True | Some k \<Rightarrow> 0 \<le> k \<and> k \<le> j - 1"
      by auto
    have "innerScan fs j = Inr r"
      using True fa r(1) by (subst innerScan.simps) simp
    with r(2) show ?thesis by (auto split: option.splits)
  next
    case False
    have "innerScan fs j = Inr (if j \<ge> 0 then Some j else None)"
      using False "1.prems" by (subst innerScan.simps) (auto simp: frameAt_def)
    then show ?thesis by auto
  qed
qed

text \<open>The labelled loop: the threshold it leaves is the old one or an index below \<open>i\<close>.\<close>

lemma outerScan_result:
  "i < int (length fs) \<Longrightarrow>
   \<exists>t. outerScan fs threshold i = Inr t \<and> (t = threshold \<or> (0 \<le> t \<and> t < i))"
proof (induction fs threshold i rule: outerScan.induct)
  case (1 fs threshold i)
  show ?case
  proof (cases "i > 0")
    case False
    then have "outerScan fs threshold i = Inr threshold"
      by (subst outerScan.simps) simp
    then show ?thesis by simp
  next
    case pos: True
    with "1.prems" have fa: "frameAt fs i = Inr (fs ! nat i)"
      by (simp add: frameAt_def)
    show ?thesis
    proof (cases "Module (fs ! nat i) = loggerModule")
      case True
      from "1.prems" have "i - 1 < int (length fs)" by simp
      from innerScan_result[OF this]
      obtain r where r: "innerScan fs (i - 1) = Inr r"
        "case r of None \<Rightarrow> True | Some k \<Rightarrow> 0 \<le> k \<and> k \<le> i - 1"
        by blast
      have "outerScan fs threshold i = Inr (case r of None \<Rightarrow> threshold | Some k \<Rightarrow> k)"
        using pos fa True r(1) by (subst outerScan.simps) (simp split: option.splits)
      with r(2) show ?thesis by (auto split: option.splits)
    next
      case False
      from pos False "1.prems" fa "1.IH"[of "fs ! nat i"]
      obtain t where t: "outerScan fs threshold (i - 1) = Inr t"
        "t = threshold \<or> (0 \<le> t \<and> t < i - 1)"
        by auto
      have "outerScan fs threshold i = Inr t"
        using pos fa False t(1) by (subst outerScan.simps) simp
      with t(2) show ?thesis by auto
    qed
  qed
qed

lemma newStacktrace_prefix:
  "\<exists>k. k \<le> length fs \<and> newStacktrace fs = Inr (take k fs)"
proof -
  have lt: "int (length fs) - 1 < int (length fs)" by simp
  from dropCurrent_result[OF lt]
  obtain t where t: "dropCurrent fs (int (length fs) - 1) = Inr t"
    "t \<le> int (length fs) - 1" "min (int (length fs) - 1) 0 \<le> t"
    by blast
  then have "t < int (length fs)" by simp
  from outerScan_result[OF this, of t]
  obtain t' where t': "outerScan fs t t = Inr t'" "t' = t \<or> (0 \<le> t' \<and> t' < t)"
    by blast
  have b: "0 \<le> t' + 1 \<and> t' + 1 \<le> int (length fs)"
    using t t' by auto
  then have "newStacktrace fs = Inr (take (nat (t' + 1)) fs)"
    using t(1) t'(1) by (simp add: newStacktrace_def sliceTo_def)
  moreover have "nat (t' + 1) \<le> length fs" using b by linarith
  ultimately show ?thesis by blast
qed

text \<open>
  C9. \<open>newStacktrace\<close> never reads a frame out of bounds: on every captured stack both
  loops end and the final slicing succeeds, and the result is a prefix of the captured
  frames (the outermost ones), possibly empty. On the empty stack the result is the
  empty stack, on a one-frame stack that frame.
\<close>

theorem newStacktrace_no_index_error:
  "(\<exists>k. k \<le> length fs \<and> newStacktrace fs = Inr (take k fs)) \<and>
   newStacktrace [] = Inr [] \<and>
   newStacktrace [f] = Inr [f]"
proof -
  have "newStacktrace [] = Inr []"
    by (simp add: newStacktrace_def dropCurrent.simps outerScan.simps sliceTo_def)
  moreover have "newStacktrace [f] = Inr [f]"
    by (simp add: newStacktrace_def dropCurrent.simps outerScan.simps sliceTo_def)
  ultimately show ?thesis
    using newStacktrace_prefix[of fs] by blast
qed

text \<open>
  C5. The call chain bridge, bridge, logger, logger, caller, main, listed innermost
  first (the captured slice holds it in the reverse order), is pruned to caller, main.
  The bridge frames may carry any module other than the logger's, in particular this
  repository's own module path; the caller is not a frame of the logger.
\<close>

theorem newStacktrace_synthetic_chain:
  assumes "Module b1 = bridge" and "Module b2 = bridge" and "bridge \<noteq> loggerModule"
    and "Module l1 = loggerModule" and "Module l2 = loggerModule"
    and "Module caller \<noteq> loggerModule"
  shows "newStacktrace (rev [b1, b2, l1, l2, caller, mainf]) = Inr (rev [caller, mainf])"
  using assms
  by (simp add: newStacktrace_def dropCurrent.simps outerScan.simps innerScan.simps
      sliceTo_def frameAt_def loggerModule_neq_module)

theorem newStacktrace_synthetic_chain_witness:
  "Module (frameOf goModModule ''newStacktrace'') = goModModule \<and>
   Module (frameOf goModModule ''(*Writer).Write'') = goModModule \<and>
   goModModule \<noteq> loggerModule \<and>
   Module (frameOf loggerModule ''(*Event).write'') = loggerModule \<and>
   Module (frameOf loggerModule ''(*Event).Msg'') = loggerModule \<and>
   Module (frameOf ''example.com/app'' ''handle'') \<noteq> loggerModule \<and>
   newStacktrace (rev [frameOf goModModule ''newStacktrace'',
                       frameOf goModModule ''(*Writer).Write'',
                       frameOf loggerModule ''(*Event).write'',
                       frameOf loggerModule ''(*Event).Msg'',
                       frameOf ''example.com/app'' ''handle'',
                       frameOf ''main'' ''main''])
     = Inr (rev [frameOf ''example.com/app'' ''handle'', frameOf ''main'' ''main''])"
proof -
  have h1: "Module (frameOf goModModule ''newStacktrace'') = goModModule"
    and h2: "Module (frameOf goModModule ''(*Writer).Write'') = goModModule"
    and h4: "Module (frameOf loggerModule ''(*Event).write'') = loggerModule"
    and h5: "Module (frameOf loggerModule ''(*Event).Msg'') = loggerModule"
    by (simp_all add: frameOf_def)
  have h6: "Module (frameOf ''example.com/app'' ''handle'') \<noteq> loggerModule"
    by (simp add: frameOf_def loggerModule_def)
  show ?thesis
    using newStacktrace_synthetic_chain[OF h1 h2 goModModule_neq_loggerModule h4 h5 h6,
        of "frameOf ''main'' ''main''"]
      h1 h2 h4 h5 h6 goModModule_neq_loggerModule
    by blast
qed





section \<open>Properties of the writer\<close>

subsection \<open>The callback and the scan\<close>

lemma fieldNames_distinct:
  "MessageFieldName \<noteq> ErrorFieldName" "ErrorFieldName \<noteq> MessageFieldName"
  by (simp_all add: MessageFieldName_def ErrorFieldName_def)

lemma newStacktrace_returns: "\<exists>st. newStacktrace fs = Inr st"
  using newStacktrace_prefix[of fs] by blast

lemma callback_message:
  "callback e s MessageFieldName val =
     Inr (s\<lparr>message := val,
            event := (event s)\<lparr>Fingerprint := Fingerprint (event s) @ [val]\<rparr>\<rparr>)"
  by (simp add: callback_def)

lemma callback_error:
  "newStacktrace (NewStacktrace e) = Inr st \<Longrightarrow>
   callback e s ErrorFieldName val =
     Inr (s\<lparr>exceptions := exceptions s @ [\<lparr>Type = [], Value = val, Stacktrace = st\<rparr>],
            event := (event s)\<lparr>Fingerprint := Fingerprint (event s) @ [val]\<rparr>\<rparr>)"
  by (simp add: callback_def fieldNames_distinct)

lemma callback_other:
  "key \<noteq> MessageFieldName \<Longrightarrow> key \<noteq> ErrorFieldName \<Longrightarrow>
   \<exists>s'. callback e s key val = Inr s' \<and> message s' = message s \<and>
        exceptions s' = exceptions s \<and>
        Fingerprint (event s') = Fingerprint (event s) \<and>
        Exception (event s') = Exception (event s)"
  by (simp add: callback_def Let_def)

lemma eachEntry_result:
  assumes st: "newStacktrace (NewStacktrace e) = Inr st"
  shows "\<exists>s'. eachEntry e s entries = Inr s' \<and>
      message s' = (case rev (messageValues entries) of [] \<Rightarrow> message s | m # _ \<Rightarrow> m) \<and>
      exceptions s' = exceptions s @
        map (\<lambda>v. \<lparr>Type = [], Value = v, Stacktrace = st\<rparr>) (errorValues entries) \<and>
      Fingerprint (event s') = Fingerprint (event s) @ messageAndErrorValues entries \<and>
      Exception (event s') = Exception (event s)"
proof (induction entries arbitrary: s)
  case Nil
  show ?case
    by (simp add: messageValues_def errorValues_def messageAndErrorValues_def)
next
  case (Cons kv rest)
  obtain key val where kv: "kv = (key, val)" by (cases kv)
  consider (msg) "key = MessageFieldName" | (err) "key = ErrorFieldName"
    | (other) "key \<noteq> MessageFieldName" "key \<noteq> ErrorFieldName" by blast
  then show ?case
  proof cases
    case msg
    let ?s1 = "s\<lparr>message := val,
            event := (event s)\<lparr>Fingerprint := Fingerprint (event s) @ [val]\<rparr>\<rparr>"
    from Cons.IH[of ?s1] obtain s' where s': "eachEntry e ?s1 rest = Inr s'"
      "message s' = (case rev (messageValues rest) of [] \<Rightarrow> message ?s1 | m # _ \<Rightarrow> m)"
      "exceptions s' = exceptions ?s1 @
        map (\<lambda>v. \<lparr>Type = [], Value = v, Stacktrace = st\<rparr>) (errorValues rest)"
      "Fingerprint (event s') = Fingerprint (event ?s1) @ messageAndErrorValues rest"
      "Exception (event s') = Exception (event ?s1)"
      by blast
    have "eachEntry e s (kv # rest) = Inr s'"
      using s'(1) by (simp add: kv msg callback_message)
    moreover have "message s' =
        (case rev (messageValues (kv # rest)) of [] \<Rightarrow> message s | m # _ \<Rightarrow> m)"
      using s'(2) by (simp add: kv msg messageValues_def split: list.splits)
    ultimately show ?thesis
      using s'(3,4,5)
      by (simp add: kv msg errorValues_def messageAndErrorValues_def fieldNames_distinct)
  next
    case err
    let ?s1 = "s\<lparr>exceptions := exceptions s @ [\<lparr>Type = [], Value = val, Stacktrace = st\<rparr>],
            event := (event s)\<lparr>Fingerprint := Fingerprint (event s) @ [val]\<rparr>\<rparr>"
    from Cons.IH[of ?s1] obtain s' where s': "eachEntry e ?s1 rest = Inr s'"
      "message s' = (case rev (messageValues rest) of [] \<Rightarrow> message ?s1 | m # _ \<Rightarrow> m)"
      "exceptions s' = exceptions ?s1 @
        map (\<lambda>v. \<lparr>Type = [], Value = v, Stacktrace = st\<rparr>) (errorValues rest)"
      "Fingerprint (event s') = Fingerprint (event ?s1) @ messageAndErrorValues rest"
      "Exception (event s') = Exception (event ?s1)"
      by blast
    have "eachEntry e s (kv # rest) = Inr s'"
      using s'(1) by (simp add: kv err callback_error[OF st])
    then show ?thesis
      using s'(2,3,4,5)
      by (simp add: kv err messageValues_def errorValues_def messageAndErrorValues_def
          fieldNames_distinct split: list.splits)
  next
    case other
    from callback_other[OF other, of e s val]
    obtain s1 where s1: "callback e s key val = Inr s1" "message s1 = message s"
      "exceptions s1 = exceptions s" "Fingerprint (event s1) = Fingerprint (event s)"
      "Exception (event s1) = Exception (event s)"
      by blast
    from Cons.IH[of s1] obtain s' where s': "eachEntry e s1 rest = Inr s'"
      "message s' = (case rev (messageValues rest) of [] \<Rightarrow> message s1 | m # _ \<Rightarrow> m)"
      "exceptions s' = exceptions s1 @
        map (\<lambda>v. \<lparr>Type = [], Value = v, Stacktrace = st\<rparr>) (errorValues rest)"
      "Fingerprint (event s') = Fingerprint (event s1) @ messageAndErrorValues rest"
      "Exception (event s') = Exception (event s1)"
      by blast
    have "eachEntry e s (kv # rest) = Inr s'"
      using s'(1) s1(1) by (simp add: kv)
    then show ?thesis
      using s'(2,3,4,5) s1(2,3,4,5) other
      by (simp add: kv messageValues_def errorValues_def messageAndErrorValues_def
          split: list.splits)
  qed
qed

lemma appendExceptions_fields:
  "Exception (appendExceptions msg excs ev) = Exception ev @ map (\<lambda>x. x\<lparr>Type := msg\<rparr>) excs \<and>
   Fingerprint (appendExceptions msg excs ev) = Fingerprint ev \<and>
   Message (appendExceptions msg excs ev) = Message ev"
  by (induction excs arbitrary: ev) simp_all


subsection \<open>\<open>parseLogEvent\<close> and \<open>Write\<close> on a well-formed record\<close>

text \<open>
  When the scan ends without error the event is built from the pairs it visited: the
  message is the last message value, there is one exception per error value, and the
  fingerprint is the explicit one when the scanner finds a non-empty one, else the
  message and error values in document order.
\<close>

lemma parseLogEvent_wellformed:
  assumes each: "ObjectEach e data = (entries, None)"
    and st: "newStacktrace (NewStacktrace e) = Inr st"
  shows "\<exists>ev. parseLogEvent e data = Inr (Some ev, True) \<and>
      Message ev = finalMessage entries \<and>
      Exception ev =
        map (\<lambda>v. \<lparr>Type = finalMessage entries, Value = v, Stacktrace = st\<rparr>)
          (errorValues entries) \<and>
      Fingerprint ev =
        (case GetString e data ''fingerprint'' of
           Inl _ \<Rightarrow> messageAndErrorValues entries
         | Inr fingerprint \<Rightarrow>
             if fingerprint \<noteq> [] then [fingerprint] else messageAndErrorValues entries)"
proof -
  let ?event0 = "\<lparr>Timestamp = now e, Logger = ''zerolog'', Extra = Map.empty,
                   Fingerprint = [], Message = [], Exception = [], User_ID = [],
                   Level = []\<rparr>"
  let ?s0 = "\<lparr>event = ?event0, message = [], exceptions = []\<rparr>"
  from eachEntry_result[OF st, of ?s0 entries]
  obtain s where s: "eachEntry e ?s0 entries = Inr s"
    "message s = (case rev (messageValues entries) of [] \<Rightarrow> message ?s0 | m # _ \<Rightarrow> m)"
    "exceptions s = exceptions ?s0 @
        map (\<lambda>v. \<lparr>Type = [], Value = v, Stacktrace = st\<rparr>) (errorValues entries)"
    "Fingerprint (event s) = Fingerprint (event ?s0) @ messageAndErrorValues entries"
    "Exception (event s) = Exception (event ?s0)"
    by blast
  have msg: "message s = finalMessage entries"
    using s(2) by (simp add: finalMessage_def split: list.splits)
  have excs: "exceptions s =
      map (\<lambda>v. \<lparr>Type = [], Value = v, Stacktrace = st\<rparr>) (errorValues entries)"
    using s(3) by simp
  have fp: "Fingerprint (event s) = messageAndErrorValues entries"
    using s(4) by simp
  have exc0: "Exception (event s) = []"
    using s(5) by simp
  let ?ev1 = "case GetString e data ''fingerprint'' of
                Inl _ \<Rightarrow> event s
              | Inr fingerprint \<Rightarrow>
                  if fingerprint \<noteq> [] then (event s)\<lparr>Fingerprint := [fingerprint]\<rparr>
                  else event s"
  let ?ev = "appendExceptions (message s) (exceptions s) (?ev1\<lparr>Message := message s\<rparr>)"
  have res: "parseLogEvent e data = Inr (Some ?ev, True)"
    using each s(1) by (simp add: parseLogEvent_def)
  have ev1_exc: "Exception ?ev1 = []"
    using exc0 by (simp split: sum.splits)
  have ev1_fp: "Fingerprint ?ev1 =
      (case GetString e data ''fingerprint'' of
         Inl _ \<Rightarrow> messageAndErrorValues entries
       | Inr fingerprint \<Rightarrow>
           if fingerprint \<noteq> [] then [fingerprint] else messageAndErrorValues entries)"
    using fp by (simp split: sum.splits)
  have "Message ?ev = finalMessage entries"
    using msg by (simp add: appendExceptions_fields)
  moreover have "Exception ?ev =
      map (\<lambda>v. \<lparr>Type = finalMessage entries, Value = v, Stacktrace = st\<rparr>)
        (errorValues entries)"
    using ev1_exc by (simp add: appendExceptions_fields excs msg o_def)
  moreover have "Fingerprint ?ev =
      (case GetString e data ''fingerprint'' of
         Inl _ \<Rightarrow> messageAndErrorValues entries
       | Inr fingerprint \<Rightarrow>
           if fingerprint \<noteq> [] then [fingerprint] else messageAndErrorValues entries)"
    using ev1_fp by (simp add: appendExceptions_fields)
  ultimately show ?thesis using res by blast
qed

text \<open>When the scan ends with an error the result is the \<open>nil\<close> event and \<open>false\<close>.\<close>

lemma parseLogEvent_malformed:
  assumes each: "ObjectEach e data = (entries, Some err)"
  shows "parseLogEvent e data = Inr (None, False)"
proof -
  obtain st where st: "newStacktrace (NewStacktrace e) = Inr st"
    using newStacktrace_returns by blast
  let ?s0 = "\<lparr>event = \<lparr>Timestamp = now e, Logger = ''zerolog'', Extra = Map.empty,
                   Fingerprint = [], Message = [], Exception = [], User_ID = [],
                   Level = []\<rparr>, message = [], exceptions = []\<rparr>"
  from eachEntry_result[OF st, of ?s0 entries]
  obtain s where "eachEntry e ?s0 entries = Inr s" by blast
  then show ?thesis using each by (simp add: parseLogEvent_def)
qed

lemma Write_enabled:
  assumes "parseLogLevel e data = (lvl, None)" and "lvl \<in> levels w"
    and "parseLogEvent e data = Inr (Some ev0, True)"
  shows "Write e w h data =
      Inr (h @ CaptureEvent (ev0\<lparr>Level := levelsMappingAt lvl\<rparr>) #
             (if Level (afterCaptureEvent e (ev0\<lparr>Level := levelsMappingAt lvl\<rparr>)) = LevelFatal
              then [Flush (flushTimeout w)] else []),
           int (length data), None)"
  using assms by (simp add: Write_def Let_def)

lemma Write_wellformed:
  assumes lv: "parseLogLevel e data = (lvl, None)" and en: "lvl \<in> levels w"
    and each: "ObjectEach e data = (entries, None)"
  shows "\<exists>ev calls. Write e w h data = Inr (h @ calls, int (length data), None) \<and>
      captured calls = [ev] \<and>
      Level ev = levelsMappingAt lvl \<and>
      Message ev = finalMessage entries \<and>
      map Type (Exception ev) = map (\<lambda>v. finalMessage entries) (errorValues entries) \<and>
      map Value (Exception ev) = errorValues entries \<and>
      Fingerprint ev =
        (case GetString e data ''fingerprint'' of
           Inl _ \<Rightarrow> messageAndErrorValues entries
         | Inr fingerprint \<Rightarrow>
             if fingerprint \<noteq> [] then [fingerprint] else messageAndErrorValues entries)"
proof -
  obtain st where st: "newStacktrace (NewStacktrace e) = Inr st"
    using newStacktrace_returns by blast
  from parseLogEvent_wellformed[OF each st]
  obtain ev0 where ev0: "parseLogEvent e data = Inr (Some ev0, True)"
    "Message ev0 = finalMessage entries"
    "Exception ev0 =
        map (\<lambda>v. \<lparr>Type = finalMessage entries, Value = v, Stacktrace = st\<rparr>)
          (errorValues entries)"
    "Fingerprint ev0 =
        (case GetString e data ''fingerprint'' of
           Inl _ \<Rightarrow> messageAndErrorValues entries
         | Inr fingerprint \<Rightarrow>
             if fingerprint \<noteq> [] then [fingerprint] else messageAndErrorValues entries)"
    by blast
  let ?ev = "ev0\<lparr>Level := levelsMappingAt lvl\<rparr>"
  let ?calls = "CaptureEvent ?ev #
      (if Level (afterCaptureEvent e ?ev) = LevelFatal then [Flush (flushTimeout w)]
       else [])"
  have "Write e w h data = Inr (h @ ?calls, int (length data), None)"
    using Write_enabled[OF lv en ev0(1)] by simp
  moreover have "captured ?calls = [?ev]" by simp
  moreover have "Level ?ev = levelsMappingAt lvl" by simp
  moreover have "Message ?ev = finalMessage entries" using ev0(2) by simp
  moreover have "map Type (Exception ?ev) =
      map (\<lambda>v. finalMessage entries) (errorValues entries)"
    using ev0(3) by (simp add: o_def)
  moreover have "map Value (Exception ?ev) = errorValues entries"
    using ev0(3) by (simp add: o_def)
  moreover have "Fingerprint ?ev =
        (case GetString e data ''fingerprint'' of
           Inl _ \<Rightarrow> messageAndErrorValues entries
         | Inr fingerprint \<Rightarrow>
             if fingerprint \<noteq> [] then [fingerprint] else messageAndErrorValues entries)"
    using ev0(4) by simp
  ultimately show ?thesis by blast
qed


subsection \<open>Evaluating the examples\<close>

lemma New_default: "New None [] = Inr defaultWriter"
  by (simp add: New_def newDefaultConfig_def defaultWriter_def)

lemma sampleStack_pruned: "newStacktrace sampleStack = Inr (take 2 sampleStack)"
  by (simp add: sampleStack_def newStacktrace_def dropCurrent.simps outerScan.simps
      innerScan.simps sliceTo_def frameAt_def frameOf_def goModModule_def module_def
      loggerModule_def)

lemmas level_defs = DebugLevel_def InfoLevel_def WarnLevel_def ErrorLevel_def FatalLevel_def
  PanicLevel_def NoLevel_def Disabled_def TraceLevel_def

lemmas severity_defs = LevelDebug_def LevelInfo_def LevelWarning_def LevelError_def
  LevelFatal_def

lemmas fieldName_defs = MessageFieldName_def ErrorFieldName_def LevelFieldName_def
  TimestampFieldName_def

lemmas record_defs = object_def field_def quoted_def

lemma answers_sel:
  "GetUnsafeString (answers lvl each fp frames) data key = lvl"
  "ObjectEach (answers lvl each fp frames) data = each"
  "GetString (answers lvl each fp frames) data key = fp"
  "ParseLevel (answers lvl each fp frames) = parseLevelNames"
  "NewStacktrace (answers lvl each fp frames) = frames"
  "now (answers lvl each fp frames) = 0"
  "afterCaptureEvent (answers lvl each fp frames) = defaultCapture"
  by (simp_all add: answers_def)

lemma levelsMappingAt_values:
  "levelsMappingAt DebugLevel = LevelDebug"
  "levelsMappingAt InfoLevel = LevelInfo"
  "levelsMappingAt WarnLevel = LevelWarning"
  "levelsMappingAt ErrorLevel = LevelError"
  "levelsMappingAt FatalLevel = LevelFatal"
  "levelsMappingAt PanicLevel = LevelFatal"
  "levelsMappingAt TraceLevel = []"
  "levelsMappingAt NoLevel = []"
  "levelsMappingAt Disabled = []"
  by (simp_all add: levelsMappingAt_def levelsMapping_def level_defs)

lemma Write_libErrors:
  "Write libErrors defaultWriter [] recordErrors =
     Inr ([CaptureEvent
            \<lparr>Timestamp = 0, Logger = ''zerolog'', Extra = Map.empty,
             Fingerprint = [''E1'', ''E2'', ''M''], Message = ''M'',
             Exception =
               [\<lparr>Type = ''M'', Value = ''E1'', Stacktrace = take 2 sampleStack\<rparr>,
                \<lparr>Type = ''M'', Value = ''E2'', Stacktrace = take 2 sampleStack\<rparr>],
             User_ID = [], Level = LevelError\<rparr>],
          57, None)"
  by (simp add: Write_def parseLogLevel_def parseLogEvent_def libErrors_def answers_sel
      parseLevelNames_def defaultWriter_def callback_def defaultCapture_def fieldName_defs sampleStack_pruned
      levelsMappingAt_values recordErrors_def record_defs severity_defs)


lemma parseLogLevel_answers:
  "parseLogLevel (answers (Inr s) each fp frames) data = parseLevelNames s"
  "parseLogLevel (answers (Inl err) each fp frames) data = (Disabled, None)"
  by (simp_all add: parseLogLevel_def answers_sel)

lemma parseLevelNames_values:
  "parseLevelNames ''error'' = (ErrorLevel, None)"
  "parseLevelNames ''fatal'' = (FatalLevel, None)"
  "parseLevelNames ''trace'' = (TraceLevel, None)"
  by (simp_all add: parseLevelNames_def)

subsection \<open>The order of the fingerprint\<close>

lemma messageAndErrorValues_append:
  "messageAndErrorValues (xs @ ys) = messageAndErrorValues xs @ messageAndErrorValues ys"
  by (simp add: messageAndErrorValues_def)

lemma messageAndErrorValues_no_error:
  "errorValues xs = [] \<Longrightarrow> messageAndErrorValues xs = messageValues xs"
  by (induction xs)
    (auto simp: messageAndErrorValues_def errorValues_def messageValues_def)

lemma messageAndErrorValues_no_message:
  "messageValues xs = [] \<Longrightarrow> messageAndErrorValues xs = errorValues xs"
  by (induction xs)
    (auto simp: messageAndErrorValues_def errorValues_def messageValues_def)

lemma errorValues_takeWhile:
  "errorValues (takeWhile (\<lambda>kv. fst kv \<noteq> ErrorFieldName) xs) = []"
  by (induction xs) (auto simp: errorValues_def)

lemma message_first_order:
  assumes m: "messageValues entries = [M]" and es: "errorValues entries = [E1, E2]"
    and first: "messageValues (takeWhile (\<lambda>kv. fst kv \<noteq> ErrorFieldName) entries) = [M]"
  shows "messageAndErrorValues entries = [M, E1, E2]"
proof -
  let ?pre = "takeWhile (\<lambda>kv. fst kv \<noteq> ErrorFieldName) entries"
  let ?post = "dropWhile (\<lambda>kv. fst kv \<noteq> ErrorFieldName) entries"
  have split: "entries = ?pre @ ?post" by simp
  have "messageValues entries = messageValues ?pre @ messageValues ?post"
    by (subst split) (simp only: messageValues_def filter_append map_append)
  with m first have post_m: "messageValues ?post = []" by simp
  have "errorValues entries = errorValues ?pre @ errorValues ?post"
    by (subst split) (simp only: errorValues_def filter_append map_append)
  with es have post_e: "errorValues ?post = [E1, E2]"
    by (simp add: errorValues_takeWhile)
  have "messageAndErrorValues entries =
      messageAndErrorValues ?pre @ messageAndErrorValues ?post"
    by (subst split) (simp only: messageAndErrorValues_append)
  also have "messageAndErrorValues ?pre = messageValues ?pre"
    by (rule messageAndErrorValues_no_error) (rule errorValues_takeWhile)
  also have "messageAndErrorValues ?post = errorValues ?post"
    by (rule messageAndErrorValues_no_message) (rule post_m)
  finally show ?thesis using first post_e by simp
qed

subsection \<open>Fingerprint\<close>

text \<open>
  C3, as stated, fails. The record \<open>recordErrors\<close> has the fields level \<open>error\<close>,
  error \<open>E1\<close>, error \<open>E2\<close> and message \<open>M\<close>, in this order (the logger writes the
  message last): an enabled level, one message, two errors and no fingerprint field.
  The event \<open>Write\<close> submits has the fingerprint \<open>[E1, E2, M]\<close>, not \<open>[M, E1, E2]\<close>.
\<close>

theorem fingerprint_message_first_counterexample:
  "parseLogLevel libErrors recordErrors = (ErrorLevel, None) \<and>
   ErrorLevel \<in> levels defaultWriter \<and>
   ObjectEach libErrors recordErrors =
     ([(''level'', ''error''), (''error'', ''E1''), (''error'', ''E2''),
       (''message'', ''M'')], None) \<and>
   GetString libErrors recordErrors ''fingerprint'' = Inl KeyPathNotFoundError \<and>
   Write libErrors defaultWriter [] recordErrors =
     Inr ([CaptureEvent
            \<lparr>Timestamp = 0, Logger = ''zerolog'', Extra = Map.empty,
             Fingerprint = [''E1'', ''E2'', ''M''], Message = ''M'',
             Exception =
               [\<lparr>Type = ''M'', Value = ''E1'', Stacktrace = take 2 sampleStack\<rparr>,
                \<lparr>Type = ''M'', Value = ''E2'', Stacktrace = take 2 sampleStack\<rparr>],
             User_ID = [], Level = LevelError\<rparr>],
          57, None)"
  using Write_libErrors
  by (simp add: libErrors_def parseLogLevel_answers parseLevelNames_values answers_sel
      defaultWriter_def)

text \<open>
  C3, amended. For a well-formed record with an enabled level, one message field \<open>M\<close>,
  two error fields \<open>E1\<close> and \<open>E2\<close> and no non-empty explicit fingerprint, \<open>Write\<close>
  submits one event whose fingerprint is the message and error values in document
  order; it is \<open>[M, E1, E2]\<close> when the message field comes before the first error
  field.
\<close>

theorem fingerprint_document_order:
  assumes "parseLogLevel e data = (lvl, None)" and "lvl \<in> levels w"
    and "ObjectEach e data = (entries, None)"
    and "messageValues entries = [M]" and "errorValues entries = [E1, E2]"
    and "GetString e data ''fingerprint'' = Inl err \<or>
         GetString e data ''fingerprint'' = Inr []"
  shows "\<exists>ev calls. Write e w h data = Inr (h @ calls, int (length data), None) \<and>
      captured calls = [ev] \<and>
      Fingerprint ev = messageAndErrorValues entries \<and>
      (messageValues (takeWhile (\<lambda>kv. fst kv \<noteq> ErrorFieldName) entries) = [M] \<longrightarrow>
       Fingerprint ev = [M, E1, E2])"
proof -
  from Write_wellformed[OF assms(1,2,3), of h]
  obtain ev calls where w: "Write e w h data = Inr (h @ calls, int (length data), None)"
    "captured calls = [ev]"
    "Fingerprint ev =
        (case GetString e data ''fingerprint'' of
           Inl _ \<Rightarrow> messageAndErrorValues entries
         | Inr fingerprint \<Rightarrow>
             if fingerprint \<noteq> [] then [fingerprint] else messageAndErrorValues entries)"
    by blast
  from w(3) assms(6) have fp: "Fingerprint ev = messageAndErrorValues entries"
    by auto
  have "messageValues (takeWhile (\<lambda>kv. fst kv \<noteq> ErrorFieldName) entries) = [M] \<longrightarrow>
       Fingerprint ev = [M, E1, E2]"
    using fp message_first_order[OF assms(4,5)] by simp
  with w(1,2) fp show ?thesis by blast
qed

theorem fingerprint_document_order_witness:
  "parseLogLevel libMessageFirst recordMessageFirst = (ErrorLevel, None) \<and>
   ErrorLevel \<in> levels defaultWriter \<and>
   ObjectEach libMessageFirst recordMessageFirst =
     ([(''level'', ''error''), (''message'', ''M''), (''error'', ''E1''),
       (''error'', ''E2'')], None) \<and>
   messageValues [(''level'', ''error''), (''message'', ''M''), (''error'', ''E1''),
       (''error'', ''E2'')] = [''M''] \<and>
   errorValues [(''level'', ''error''), (''message'', ''M''), (''error'', ''E1''),
       (''error'', ''E2'')] = [''E1'', ''E2''] \<and>
   GetString libMessageFirst recordMessageFirst ''fingerprint'' = Inl KeyPathNotFoundError \<and>
   (\<exists>ev calls. Write libMessageFirst defaultWriter [] recordMessageFirst =
        Inr (calls, int (length recordMessageFirst), None) \<and>
      captured calls = [ev] \<and> Fingerprint ev = [''M'', ''E1'', ''E2''])"
proof -
  let ?entries = "[(''level'', ''error''), (''message'', ''M''), (''error'', ''E1''),
       (''error'', ''E2'')]"
  have h1: "parseLogLevel libMessageFirst recordMessageFirst = (ErrorLevel, None)"
    by (simp add: libMessageFirst_def parseLogLevel_answers parseLevelNames_values)
  have h2: "ErrorLevel \<in> levels defaultWriter"
    by (simp add: defaultWriter_def)
  have h3: "ObjectEach libMessageFirst recordMessageFirst = (?entries, None)"
    by (simp add: libMessageFirst_def answers_sel)
  have h4: "messageValues ?entries = [''M'']"
    by (simp add: messageValues_def fieldName_defs)
  have h5: "errorValues ?entries = [''E1'', ''E2'']"
    by (simp add: errorValues_def fieldName_defs)
  have h6: "GetString libMessageFirst recordMessageFirst ''fingerprint''
      = Inl KeyPathNotFoundError"
    by (simp add: libMessageFirst_def answers_sel)
  have first: "messageValues (takeWhile (\<lambda>kv. fst kv \<noteq> ErrorFieldName) ?entries) = [''M'']"
    by (simp add: messageValues_def fieldName_defs)
  from fingerprint_document_order[OF h1 h2 h3 h4 h5 disjI1[OF h6], of "[]"] first
  have "\<exists>ev calls. Write libMessageFirst defaultWriter [] recordMessageFirst =
        Inr (calls, int (length recordMessageFirst), None) \<and>
      captured calls = [ev] \<and> Fingerprint ev = [''M'', ''E1'', ''E2'']"
    by auto
  with h1 h2 h3 h4 h5 h6 show ?thesis by blast
qed


subsection \<open>Exception types\<close>

text \<open>
  C4. For a well-formed record with an enabled level, \<open>Write\<close> submits one event; its
  message is the record's final message value, it has one exception per error field,
  in order, and the type of every one of them is that final message, wherever the
  message field stands in the record.
\<close>

theorem exception_type_is_final_message:
  assumes "parseLogLevel e data = (lvl, None)" and "lvl \<in> levels w"
    and "ObjectEach e data = (entries, None)"
  shows "\<exists>ev calls. Write e w h data = Inr (h @ calls, int (length data), None) \<and>
      captured calls = [ev] \<and>
      Message ev = finalMessage entries \<and>
      map Type (Exception ev) =
        replicate (length (errorValues entries)) (finalMessage entries) \<and>
      map Value (Exception ev) = errorValues entries"
proof -
  from Write_wellformed[OF assms, of h]
  obtain ev calls where w: "Write e w h data = Inr (h @ calls, int (length data), None)"
    "captured calls = [ev]" "Message ev = finalMessage entries"
    "map Type (Exception ev) = map (\<lambda>v. finalMessage entries) (errorValues entries)"
    "map Value (Exception ev) = errorValues entries"
    by blast
  from w(4) have "map Type (Exception ev) =
      replicate (length (errorValues entries)) (finalMessage entries)"
    by (simp add: map_replicate_const)
  with w(1,2,3,5) show ?thesis by blast
qed

theorem exception_type_is_final_message_witness:
  "parseLogLevel libErrors recordErrors = (ErrorLevel, None) \<and>
   ErrorLevel \<in> levels defaultWriter \<and>
   ObjectEach libErrors recordErrors =
     ([(''level'', ''error''), (''error'', ''E1''), (''error'', ''E2''),
       (''message'', ''M'')], None) \<and>
   (\<exists>ev calls. Write libErrors defaultWriter [] recordErrors =
        Inr (calls, int (length recordErrors), None) \<and>
      captured calls = [ev] \<and> Message ev = ''M'' \<and>
      map Type (Exception ev) = [''M'', ''M''] \<and>
      map Value (Exception ev) = [''E1'', ''E2''])"
proof -
  let ?entries = "[(''level'', ''error''), (''error'', ''E1''), (''error'', ''E2''),
       (''message'', ''M'')]"
  have h1: "parseLogLevel libErrors recordErrors = (ErrorLevel, None)"
    by (simp add: libErrors_def parseLogLevel_answers parseLevelNames_values)
  have h2: "ErrorLevel \<in> levels defaultWriter"
    by (simp add: defaultWriter_def)
  have h3: "ObjectEach libErrors recordErrors = (?entries, None)"
    by (simp add: libErrors_def answers_sel)
  have m: "finalMessage ?entries = ''M''"
    by (simp add: finalMessage_def messageValues_def fieldName_defs)
  have es: "errorValues ?entries = [''E1'', ''E2'']"
    by (simp add: errorValues_def fieldName_defs)
  from exception_type_is_final_message[OF h1 h2 h3, of "[]"] m es
  have "\<exists>ev calls. Write libErrors defaultWriter [] recordErrors =
        Inr (calls, int (length recordErrors), None) \<and>
      captured calls = [ev] \<and> Message ev = ''M'' \<and>
      map Type (Exception ev) = [''M'', ''M''] \<and>
      map Value (Exception ev) = [''E1'', ''E2'']"
    by (simp add: numeral_2_eq_2)
  with h1 h2 h3 show ?thesis by blast
qed

subsection \<open>Explicit fingerprint\<close>

text \<open>
  C7. For a well-formed record with an enabled level in which the scanner finds a
  non-empty string \<open>F\<close> at the top-level key \<open>fingerprint\<close>, the fingerprint of the
  submitted event is \<open>[F]\<close>, whatever the message and error fields are.
\<close>

theorem explicit_fingerprint_overrides:
  assumes "parseLogLevel e data = (lvl, None)" and "lvl \<in> levels w"
    and "ObjectEach e data = (entries, None)"
    and "GetString e data ''fingerprint'' = Inr F" and "F \<noteq> []"
  shows "\<exists>ev calls. Write e w h data = Inr (h @ calls, int (length data), None) \<and>
      captured calls = [ev] \<and> Fingerprint ev = [F]"
proof -
  from Write_wellformed[OF assms(1,2,3), of h]
  obtain ev calls where w: "Write e w h data = Inr (h @ calls, int (length data), None)"
    "captured calls = [ev]"
    "Fingerprint ev =
        (case GetString e data ''fingerprint'' of
           Inl _ \<Rightarrow> messageAndErrorValues entries
         | Inr fingerprint \<Rightarrow>
             if fingerprint \<noteq> [] then [fingerprint] else messageAndErrorValues entries)"
    by blast
  from w(3) assms(4,5) have "Fingerprint ev = [F]" by simp
  with w(1,2) show ?thesis by blast
qed

theorem explicit_fingerprint_overrides_witness:
  "parseLogLevel libFingerprint recordFingerprint = (ErrorLevel, None) \<and>
   ErrorLevel \<in> levels defaultWriter \<and>
   ObjectEach libFingerprint recordFingerprint =
     ([(''level'', ''error''), (''error'', ''E1''), (''message'', ''M''),
       (''fingerprint'', ''F'')], None) \<and>
   GetString libFingerprint recordFingerprint ''fingerprint'' = Inr ''F'' \<and>
   ''F'' \<noteq> [] \<and>
   (\<exists>ev calls. Write libFingerprint defaultWriter [] recordFingerprint =
        Inr (calls, int (length recordFingerprint), None) \<and>
      captured calls = [ev] \<and> Fingerprint ev = [''F''])"
proof -
  have h1: "parseLogLevel libFingerprint recordFingerprint = (ErrorLevel, None)"
    by (simp add: libFingerprint_def parseLogLevel_answers parseLevelNames_values)
  have h2: "ErrorLevel \<in> levels defaultWriter"
    by (simp add: defaultWriter_def)
  have h3: "ObjectEach libFingerprint recordFingerprint =
     ([(''level'', ''error''), (''error'', ''E1''), (''message'', ''M''),
       (''fingerprint'', ''F'')], None)"
    by (simp add: libFingerprint_def answers_sel)
  have h4: "GetString libFingerprint recordFingerprint ''fingerprint'' = Inr ''F''"
    by (simp add: libFingerprint_def answers_sel)
  have h5: "''F'' \<noteq> []" by simp
  from explicit_fingerprint_overrides[OF h1 h2 h3 h4 h5, of "[]"]
  have "\<exists>ev calls. Write libFingerprint defaultWriter [] recordFingerprint =
        Inr (calls, int (length recordFingerprint), None) \<and>
      captured calls = [ev] \<and> Fingerprint ev = [''F'']"
    by simp
  with h1 h2 h3 h4 h5 show ?thesis by blast
qed

subsection \<open>Flushing\<close>







subsection \<open>Records that are filtered out\<close>


lemma Write_libNoLevel:
  "Write libNoLevel \<lparr>levels = {Disabled}, flushTimeout = 3000000000\<rparr> [] recordNoLevel =
     Inr ([CaptureEvent
            \<lparr>Timestamp = 0, Logger = ''zerolog'', Extra = Map.empty,
             Fingerprint = [''M''], Message = ''M'', Exception = [],
             User_ID = [], Level = []\<rparr>],
          15, None)"
  by (simp add: Write_def parseLogLevel_def parseLogEvent_def libNoLevel_def answers_sel
      callback_def defaultCapture_def fieldName_defs levelsMappingAt_values recordNoLevel_def record_defs
      severity_defs)

text \<open>
  C2, as stated, fails. \<open>parseLogLevel\<close> answers a missing level field with the level
  \<open>Disabled\<close> and no error. A writer built with \<open>WithLevels(zerolog.Disabled)\<close> has that
  level enabled: on the record \<open>recordNoLevel\<close>, whose only field is the message \<open>M\<close>,
  it submits an event.
\<close>

theorem missing_level_submitted_counterexample:
  "GetUnsafeString libNoLevel recordNoLevel LevelFieldName = Inl KeyPathNotFoundError \<and>
   New None [WithLevels [Disabled]] =
     Inr \<lparr>levels = {Disabled}, flushTimeout = 3000000000\<rparr> \<and>
   Write libNoLevel \<lparr>levels = {Disabled}, flushTimeout = 3000000000\<rparr> [] recordNoLevel =
     Inr ([CaptureEvent
            \<lparr>Timestamp = 0, Logger = ''zerolog'', Extra = Map.empty,
             Fingerprint = [''M''], Message = ''M'', Exception = [],
             User_ID = [], Level = []\<rparr>],
          15, None)"
  using Write_libNoLevel
  by (simp add: libNoLevel_def answers_sel New_def WithLevels_def newDefaultConfig_def)

text \<open>
  C2, amended. When the level field is missing and \<open>Disabled\<close> is not an enabled level,
  or the level field is unparseable, or it is parseable and the level is not enabled,
  \<open>Write\<close> makes no call on the hub and returns the length of the input with a \<open>nil\<close>
  error.
\<close>

theorem filtered_record_submits_nothing:
  assumes "case GetUnsafeString e data LevelFieldName of
             Inl err \<Rightarrow> Disabled \<notin> levels w
           | Inr lvlStr \<Rightarrow>
               snd (ParseLevel e lvlStr) \<noteq> None \<or> fst (ParseLevel e lvlStr) \<notin> levels w"
  shows "Write e w h data = Inr (h, int (length data), None)"
  using assms
  by (auto simp: Write_def parseLogLevel_def Let_def split: sum.splits prod.splits)

theorem filtered_record_submits_nothing_witness:
  "GetUnsafeString libNoLevel recordNoLevel LevelFieldName = Inl KeyPathNotFoundError \<and>
   Disabled \<notin> levels defaultWriter \<and>
   Write libNoLevel defaultWriter [] recordNoLevel = Inr ([], int (length recordNoLevel), None)"
proof -
  have g: "GetUnsafeString libNoLevel recordNoLevel LevelFieldName = Inl KeyPathNotFoundError"
    by (simp add: libNoLevel_def answers_sel)
  have d: "Disabled \<notin> levels defaultWriter"
    by (simp add: defaultWriter_def level_defs)
  have "case GetUnsafeString libNoLevel recordNoLevel LevelFieldName of
             Inl err \<Rightarrow> Disabled \<notin> levels defaultWriter
           | Inr lvlStr \<Rightarrow>
               snd (ParseLevel libNoLevel lvlStr) \<noteq> None \<or>
               fst (ParseLevel libNoLevel lvlStr) \<notin> levels defaultWriter"
    using g d by simp
  from filtered_record_submits_nothing[OF this, of "[]"] g d show ?thesis by simp
qed

subsection \<open>The level mapping\<close>


lemma Write_libTrace:
  "Write libTrace \<lparr>levels = {TraceLevel}, flushTimeout = 3000000000\<rparr> [] recordTrace =
     Inr ([CaptureEvent
            \<lparr>Timestamp = 0, Logger = ''zerolog'', Extra = Map.empty,
             Fingerprint = [''M''], Message = ''M'', Exception = [],
             User_ID = [], Level = []\<rparr>],
          31, None)"
  by (simp add: Write_def parseLogLevel_def parseLogEvent_def libTrace_def answers_sel
      parseLevelNames_def callback_def defaultCapture_def fieldName_defs levelsMappingAt_values
      recordTrace_def record_defs severity_defs)

lemma WriteLevel_libTrace:
  "WriteLevel libTrace \<lparr>levels = {TraceLevel}, flushTimeout = 3000000000\<rparr> []
       TraceLevel recordTrace =
     Inr ([CaptureEvent
            \<lparr>Timestamp = 0, Logger = ''zerolog'', Extra = Map.empty,
             Fingerprint = [''M''], Message = ''M'', Exception = [],
             User_ID = [], Level = []\<rparr>],
          31, None)"
  by (simp add: WriteLevel_def parseLogEvent_def libTrace_def answers_sel
      callback_def defaultCapture_def fieldName_defs levelsMappingAt_values
      recordTrace_def record_defs severity_defs)

text \<open>
  C8, as stated, fails. \<open>WithLevels(zerolog.TraceLevel)\<close> enables the trace level, a
  record of level \<open>trace\<close> passes the filter, and \<open>levelsMapping\<close> has no entry for it:
  the submitted event has the empty severity.
\<close>

theorem trace_level_unmapped_counterexample:
  "New None [WithLevels [TraceLevel]] =
     Inr \<lparr>levels = {TraceLevel}, flushTimeout = 3000000000\<rparr> \<and>
   parseLogLevel libTrace recordTrace = (TraceLevel, None) \<and>
   levelsMapping TraceLevel = None \<and>
   Write libTrace \<lparr>levels = {TraceLevel}, flushTimeout = 3000000000\<rparr> [] recordTrace =
     Inr ([CaptureEvent
            \<lparr>Timestamp = 0, Logger = ''zerolog'', Extra = Map.empty,
             Fingerprint = [''M''], Message = ''M'', Exception = [],
             User_ID = [], Level = []\<rparr>],
          31, None) \<and>
   WriteLevel libTrace \<lparr>levels = {TraceLevel}, flushTimeout = 3000000000\<rparr> []
       TraceLevel recordTrace =
     Inr ([CaptureEvent
            \<lparr>Timestamp = 0, Logger = ''zerolog'', Extra = Map.empty,
             Fingerprint = [''M''], Message = ''M'', Exception = [],
             User_ID = [], Level = []\<rparr>],
          31, None)"
  using Write_libTrace WriteLevel_libTrace
  by (simp add: libTrace_def parseLogLevel_answers parseLevelNames_values New_def
      WithLevels_def newDefaultConfig_def levelsMapping_def level_defs)

text \<open>
  C8, amended. \<open>levelsMapping\<close> is defined exactly at the six levels debug, info, warn,
  error, fatal and panic, and yields one severity at each (fatal for both fatal and
  panic). At every other level the lookup that \<open>Write\<close> and \<open>WriteLevel\<close> make yields
  the empty severity.
\<close>

theorem levelsMapping_six_levels:
  "dom levelsMapping =
     {DebugLevel, InfoLevel, WarnLevel, ErrorLevel, FatalLevel, PanicLevel} \<and>
   levelsMapping DebugLevel = Some LevelDebug \<and>
   levelsMapping InfoLevel = Some LevelInfo \<and>
   levelsMapping WarnLevel = Some LevelWarning \<and>
   levelsMapping ErrorLevel = Some LevelError \<and>
   levelsMapping FatalLevel = Some LevelFatal \<and>
   levelsMapping PanicLevel = Some LevelFatal \<and>
   levelsMappingAt lvl =
     (if lvl = DebugLevel then LevelDebug
      else if lvl = InfoLevel then LevelInfo
      else if lvl = WarnLevel then LevelWarning
      else if lvl = ErrorLevel then LevelError
      else if lvl = FatalLevel \<or> lvl = PanicLevel then LevelFatal
      else [])"
proof -
  have "dom levelsMapping =
     {DebugLevel, InfoLevel, WarnLevel, ErrorLevel, FatalLevel, PanicLevel}"
    by (auto simp: levelsMapping_def level_defs split: if_splits)
  moreover have "levelsMappingAt lvl =
     (if lvl = DebugLevel then LevelDebug
      else if lvl = InfoLevel then LevelInfo
      else if lvl = WarnLevel then LevelWarning
      else if lvl = ErrorLevel then LevelError
      else if lvl = FatalLevel \<or> lvl = PanicLevel then LevelFatal
      else [])"
    by (simp add: levelsMappingAt_def levelsMapping_def level_defs)
  ultimately show ?thesis
    by (simp add: levelsMapping_def level_defs)
qed

subsection \<open>Malformed input\<close>

text \<open>
  Whenever \<open>Write\<close> returns, it returns the length of the input and a \<open>nil\<close> error. It
  does not return when the level is enabled and the scan fails: \<open>parseLogEvent\<close> hands
  back a \<open>nil\<close> event, and \<open>Write\<close> assigns to its \<open>Level\<close> field before it tests \<open>ok\<close>.
\<close>

lemma Write_returns_length_and_nil:
  "Write e w h data = Inr (h', n, err) \<Longrightarrow> n = int (length data) \<and> err = None"
  by (auto simp: Write_def Let_def split: prod.splits if_splits sum.splits option.splits)

lemma Write_malformed_panics:
  assumes "parseLogLevel e data = (lvl, None)" and "lvl \<in> levels w"
    and "ObjectEach e data = (entries, Some err)"
  shows "Write e w h data = Inl NilPointerDereference"
  using assms parseLogEvent_malformed[OF assms(3)]
  by (simp add: Write_def Let_def)

text \<open>
  C1. On the truncated record \<open>recordTruncated\<close> (an open brace, the fields level
  \<open>error\<close> and message \<open>M\<close>, no closing brace) the default writer reads the level
  \<open>error\<close>, which is enabled; the scan fails after the two fields; \<open>Write\<close> panics
  with a nil pointer dereference instead of returning the length and \<open>nil\<close>.
\<close>

theorem Write_truncated_record_panics:
  "recordTruncated =
     ''{'' @ quoted ''level'' @ '':'' @ quoted ''error'' @ '','' @
     quoted ''message'' @ '':'' @ quoted ''M'' \<and>
   parseLogLevel libTruncated recordTruncated = (ErrorLevel, None) \<and>
   ErrorLevel \<in> levels defaultWriter \<and>
   ObjectEach libTruncated recordTruncated =
     ([(''level'', ''error''), (''message'', ''M'')], Some MalformedArrayError) \<and>
   parseLogEvent libTruncated recordTruncated = Inr (None, False) \<and>
   Write libTruncated defaultWriter [] recordTruncated = Inl NilPointerDereference"
proof -
  have h1: "parseLogLevel libTruncated recordTruncated = (ErrorLevel, None)"
    by (simp add: libTruncated_def parseLogLevel_answers parseLevelNames_values)
  have h2: "ErrorLevel \<in> levels defaultWriter"
    by (simp add: defaultWriter_def)
  have h3: "ObjectEach libTruncated recordTruncated =
     ([(''level'', ''error''), (''message'', ''M'')], Some MalformedArrayError)"
    by (simp add: libTruncated_def answers_sel)
  have shape: "recordTruncated =
     ''{'' @ quoted ''level'' @ '':'' @ quoted ''error'' @ '','' @
     quoted ''message'' @ '':'' @ quoted ''M''"
    by (simp add: recordTruncated_def record_defs)
  from shape h1 h2 h3 parseLogEvent_malformed[OF h3] Write_malformed_panics[OF h1 h2 h3]
  show ?thesis by blast
qed

end
